theory Spec2Isabelle
  imports Complex_Main
begin

section \<open>Strings\<close>

text \<open>
  Message text, addresses and codes are \<open>string\<close>s: a string is the list of its UTF-16
  code units, and a \<open>char\<close> is a code unit below 256. \<open>toLowerCase\<close> and \<open>toUpperCase\<close>
  change the letters A-Z and a-z only (JavaScript also maps the accented letters above
  127, which no literal, address or code of the handlers contains). \<open>trim\<close> removes the
  white space of JavaScript at both ends; below 256 that is TAB, LF, VT, FF, CR, SPACE
  and the no-break space U+00A0.
\<close>

definition toLowerCase_char :: "char \<Rightarrow> char" where
  "toLowerCase_char c =
     (case map_of (zip ''ABCDEFGHIJKLMNOPQRSTUVWXYZ'' ''abcdefghijklmnopqrstuvwxyz'') c of
        Some d \<Rightarrow> d
      | None \<Rightarrow> c)"

definition toUpperCase_char :: "char \<Rightarrow> char" where
  "toUpperCase_char c =
     (case map_of (zip ''abcdefghijklmnopqrstuvwxyz'' ''ABCDEFGHIJKLMNOPQRSTUVWXYZ'') c of
        Some d \<Rightarrow> d
      | None \<Rightarrow> c)"

definition toLowerCase :: "string \<Rightarrow> string" where
  "toLowerCase s = map toLowerCase_char s"

definition toUpperCase :: "string \<Rightarrow> string" where
  "toUpperCase s = map toUpperCase_char s"

definition is_space :: "char \<Rightarrow> bool" where
  "is_space c = (c \<in> set [CHR 0x09, CHR 0x0A, CHR 0x0B, CHR 0x0C, CHR 0x0D, CHR '' '', CHR 0xA0])"

definition trim :: "string \<Rightarrow> string" where
  "trim s = rev (dropWhile is_space (rev (dropWhile is_space s)))"

text \<open>\<open>s.split(' ')\<close>: cut at every single space; the result is never empty.\<close>

fun split_on :: "char \<Rightarrow> string \<Rightarrow> string list" where
  "split_on c [] = [[]]"
| "split_on c (x # xs) =
     (if x = c then [] # split_on c xs
      else (case split_on c xs of
              p # ps \<Rightarrow> (x # p) # ps
            | [] \<Rightarrow> [[x]]))"

text \<open>\<open>parts.join(' ')\<close>.\<close>

fun join_with :: "char \<Rightarrow> string list \<Rightarrow> string" where
  "join_with c [] = []"
| "join_with c [p] = p"
| "join_with c (p # q # ps) = p @ c # join_with c (q # ps)"

definition startsWith :: "string \<Rightarrow> string \<Rightarrow> bool" where
  "startsWith s p = (take (length p) s = p)"

text \<open>\<open>.single()\<close> of the store client: the row when exactly one row matches, otherwise
  no data (and an error).\<close>

definition single :: "'a list \<Rightarrow> 'a option" where
  "single rows = (case rows of [r] \<Rightarrow> Some r | _ \<Rightarrow> None)"

section \<open>Data model (database/schema.sql)\<close>

text \<open>
  Instants (TIMESTAMPTZ columns, \<open>new Date()\<close>) are milliseconds since the epoch.
  A UUID primary key is a natural number drawn from the store's counter \<open>next_uuid\<close>.
  Prices are exact numbers: the handlers only compare them, and the order of two finite
  JavaScript numbers is the order of the numbers they denote. A JavaScript number that
  a handler parses from text is a \<open>js_number\<close>: NaN, an infinity or a finite number; the
  finite number is the one its JSON text denotes, which is what the store receives.

  A table is the list of its rows in insertion order. The store answers every call; an
  insert that would break a primary key, a UNIQUE constraint or the type of a column
  the handlers can run into is rejected, and the handlers that do not read the result
  go on as the source does. A foreign key to \<open>telegram_users\<close> always holds in the webhook, where the sender's
  row is read or created before any command runs.
\<close>

datatype js_number = NaN | Infinity | NegInfinity | Finite real

record telegram_user =
  telegram_id :: int
  wallet_address :: "string option"
  username :: "string option"
  link_code :: "string option"
  link_code_expires :: "int option"
  linked_at :: "int option"
  referral_code :: "string option"
  referred_by :: "int option"
  notifications_enabled :: bool
  created_at :: int

record price_alert =
  pa_id :: nat
  pa_telegram_id :: int
  alert_type :: string
  target_price :: real
  triggered :: bool
  triggered_at :: "int option"
  pa_created_at :: int

record watch_entry =
  wl_id :: nat
  wl_telegram_id :: int
  wl_wallet_address :: string
  nickname :: "string option"
  wl_created_at :: int

record referral =
  rf_id :: nat
  referrer_telegram_id :: int
  referred_telegram_id :: int
  rf_referral_code :: string
  status :: string
  rf_created_at :: int
  completed_at :: "int option"

record support_ticket =
  st_id :: nat
  st_telegram_id :: int
  subject :: string
  message :: string
  st_status :: string
  st_created_at :: int

record store =
  telegram_users :: "telegram_user list"
  telegram_price_alerts :: "price_alert list"
  telegram_watchlist :: "watch_entry list"
  telegram_referrals :: "referral list"
  telegram_support_tickets :: "support_ticket list"
  next_uuid :: nat

text \<open>\<open>.update(f).eq('telegram_id', tid)\<close> on \<open>telegram_users\<close>.\<close>

definition update_users :: "int \<Rightarrow> (telegram_user \<Rightarrow> telegram_user) \<Rightarrow> store \<Rightarrow> store" where
  "update_users tid f s =
     s\<lparr>telegram_users := map (\<lambda>u. if telegram_id u = tid then f u else u) (telegram_users s)\<rparr>"

text \<open>
  The column \<open>target_price DECIMAL(20, 10) NOT NULL\<close>: a number is rounded to ten decimal
  places, ties away from zero, and is refused when the rounded number has more than ten
  digits before the point. The result is the number stored, \<open>None\<close> when it is refused.
\<close>

definition round_half_away :: "real \<Rightarrow> int" where
  "round_half_away y = (if 0 \<le> y then \<lfloor>y + 1 / 2\<rfloor> else - \<lfloor>- y + 1 / 2\<rfloor>)"

definition decimal_20_10 :: "real \<Rightarrow> real option" where
  "decimal_20_10 x =
     (let n = round_half_away (x * 10 ^ 10)
      in if \<bar>n\<bar> \<ge> 10 ^ 20 then None else Some (real_of_int n / 10 ^ 10))"

text \<open>\<open>.update(f).eq('id', i)\<close> on \<open>telegram_price_alerts\<close>.\<close>

definition update_alerts :: "nat \<Rightarrow> (price_alert \<Rightarrow> price_alert) \<Rightarrow> store \<Rightarrow> store" where
  "update_alerts i f s =
     s\<lparr>telegram_price_alerts := map (\<lambda>a. if pa_id a = i then f a else a) (telegram_price_alerts s)\<rparr>"

section \<open>Outbound messages and the environment\<close>

text \<open>
  A message to the chat transport is the chat id and the text. The texts are the
  literals of the source; a text the source builds from data is a constructor holding
  that data.
\<close>

datatype msg_text =
    WalletLinked string
  | PriceAlertText string real real
  | ServiceUnavailable
  | WelcomeText "string option"
  | HelpText
  | AlreadyLinked string
  | LinkUrl string
  | NoWalletLinked
  | WalletUnlinked
  | NotificationsState bool
  | NoWalletUseLink
  | PortfolioText string
  | StakingNotConfigured
  | StakingFailed
  | StakingText string
  | PriceUnavailable
  | PriceText real
  | GasText "string option"
  | ConvertUsage
  | ConvertText js_number real
  | AlertUsage
  | AlertInvalid
  | MaxAlerts
  | AlertSet string js_number
  | NoActiveAlerts
  | AlertsList "price_alert list"
  | AlertNotFound
  | AlertDeleted
  | WatchUsage
  | MaxWallets
  | Watching string
  | WatchlistEmpty
  | WatchlistText "watch_entry list"
  | UnwatchUsage
  | Removed
  | ReferLink "string option"
  | TotalReferrals nat
  | ContractText string
  | FaqText
  | SupportUsage
  | SupportSubmitted
  | UnknownCommand

type_synonym outbound = "int \<times> msg_text"

text \<open>
  What an invocation reads from outside the store: the process environment
  (\<open>SUPABASE_URL\<close> and \<open>SUPABASE_ANON_KEY\<close> decide whether \<open>supabase\<close> is null), the clock,
  the random bytes of \<open>generateCode\<close>, the library functions \<open>verifyMessage\<close>, \<open>parseFloat\<close>
  and \<open>parseInt\<close> (\<open>None\<close> is a throw of \<open>verifyMessage\<close>, NaN of \<open>parseInt\<close>), the answers of
  the price feed and the chain RPC, and whether a \<open>fetch\<close> to the chat transport for a
  chat id succeeds.
\<close>

record env =
  supabase :: bool
  BOT_TOKEN :: string
  TOKEN_ADDRESS :: string
  STAKING_CONTRACT_ADDRESS :: string
  CRON_SECRET :: string
  now :: int
  randomHex :: "nat \<Rightarrow> string"
  verifyMessage :: "string \<Rightarrow> string \<Rightarrow> string option"
  parseFloat :: "string \<Rightarrow> js_number"
  parseInt :: "string \<Rightarrow> int option"
  feedPrice :: "real option"
  rpcBalance :: "string \<Rightarrow> string"
  rpcStaking :: "string \<Rightarrow> string option"
  rpcGas :: "string option"
  fetchOk :: "int \<Rightarrow> bool"

section \<open>api/telegram/verify-link.ts\<close>

record verify_request =
  vr_method :: string
  vr_code :: string
  vr_walletAddress :: string
  vr_signature :: string

datatype verify_response =
    MethodNotAllowed405
  | DatabaseNotConfigured500
  | MissingFields400
  | InvalidOrExpiredLinkCode404
  | LinkCodeExpired400
  | InvalidSignature400
  | Success200
  | VerificationFailed500

definition expectedMessage :: "string \<Rightarrow> string" where
  "expectedMessage c = ''Link wallet to Telegram'' @ [CHR 0x0A, CHR 0x0A] @ ''Code: '' @ c"

text \<open>The row update of a successful verification: one \<open>update\<close> call with four columns.\<close>

definition bind_wallet :: "string \<Rightarrow> int \<Rightarrow> telegram_user \<Rightarrow> telegram_user" where
  "bind_wallet walletAddress t u =
     u\<lparr>wallet_address := Some (toLowerCase walletAddress),
       linked_at := Some t,
       link_code := None,
       link_code_expires := None\<rparr>"

text \<open>
  The handler of \<open>POST /api/telegram/verify-link\<close>. A missing body field and the empty
  string are both falsy, so a request holds three strings. The result is the response,
  the store after the call and the messages sent.
\<close>

definition verify_link_handler :: "env \<Rightarrow> verify_request \<Rightarrow> store \<Rightarrow> verify_response \<times> store \<times> outbound list" where
  "verify_link_handler e req s =
     (if vr_method req \<noteq> ''POST'' then (MethodNotAllowed405, s, [])
      else if \<not> supabase e then (DatabaseNotConfigured500, s, [])
      else if vr_code req = [] \<or> vr_walletAddress req = [] \<or> vr_signature req = []
        then (MissingFields400, s, [])
      else
        (case single (filter (\<lambda>u. link_code u = Some (vr_code req)) (telegram_users s)) of
           None \<Rightarrow> (InvalidOrExpiredLinkCode404, s, [])
         | Some user \<Rightarrow>
             if (case link_code_expires user of Some x \<Rightarrow> x < now e | None \<Rightarrow> False)
               then (LinkCodeExpired400, s, [])
             else
               (case verifyMessage e (expectedMessage (vr_code req)) (vr_signature req) of
                  None \<Rightarrow> (VerificationFailed500, s, [])
                | Some recoveredAddress \<Rightarrow>
                    if toLowerCase recoveredAddress \<noteq> toLowerCase (vr_walletAddress req)
                      then (InvalidSignature400, s, [])
                    else
                      (let s' = update_users (telegram_id user)
                                  (bind_wallet (vr_walletAddress req) (now e)) s
                       in if BOT_TOKEN e = [] then (Success200, s', [])
                          else if fetchOk e (telegram_id user)
                            then (Success200, s',
                                  [(telegram_id user, WalletLinked (vr_walletAddress req))])
                          else (VerificationFailed500, s', [])))))"

section \<open>api/cron/check-alerts.ts\<close>

record cron_request =
  cr_method :: string
  cr_authorization :: "string option"

datatype cron_response =
    Unauthorized401
  | NotConfigured500
  | FailedToGetPrice500
  | NoAlerts200 real
  | Checked200 real nat nat
  | InternalError500

text \<open>\<open>getCurrentPrice\<close>: null without a token address, otherwise the feed's answer
  (\<open>feedPrice\<close> is \<open>None\<close> when the fetch fails, no pair is listed or the price is NaN).\<close>

definition getCurrentPrice :: "env \<Rightarrow> real option" where
  "getCurrentPrice e = (if TOKEN_ADDRESS e = [] then None else feedPrice e)"

text \<open>The trigger predicate of the sweep (\<open>shouldTrigger\<close> in the loop body).\<close>

definition shouldTrigger :: "price_alert \<Rightarrow> real \<Rightarrow> bool" where
  "shouldTrigger alert currentPrice =
     ((alert_type alert = ''above'' \<and> currentPrice \<ge> target_price alert) \<or>
      (alert_type alert = ''below'' \<and> currentPrice \<le> target_price alert))"

text \<open>
  \<open>select('*, telegram_users(notifications_enabled)').eq('triggered', false)\<close>: the
  untriggered rows, each with the \<open>notifications_enabled\<close> of its owner's row as it is
  when the rows are read.
\<close>

definition select_untriggered :: "store \<Rightarrow> (price_alert \<times> bool option) list" where
  "select_untriggered s =
     map (\<lambda>a. (a, map_option notifications_enabled
                    (find (\<lambda>u. telegram_id u = pa_telegram_id a) (telegram_users s))))
       (filter (\<lambda>a. \<not> triggered a) (telegram_price_alerts s))"

text \<open>The update of a row that fires: \<open>{ triggered: true, triggered_at: now }\<close>.\<close>

definition mark_triggered :: "int \<Rightarrow> price_alert \<Rightarrow> price_alert" where
  "mark_triggered t a = a\<lparr>triggered := True, triggered_at := Some t\<rparr>"

text \<open>
  The loop over the rows read. It works on the rows as they were read and on the store
  as it is at each update. The result says whether the loop ran to its end (a failed
  \<open>fetch\<close> in \<open>sendTelegramMessage\<close> throws and leaves the loop), and gives the store, the
  messages sent and the counter \<open>triggered\<close>.
\<close>

fun sweep :: "env \<Rightarrow> real \<Rightarrow> (price_alert \<times> bool option) list \<Rightarrow> store \<Rightarrow> outbound list \<Rightarrow> nat
    \<Rightarrow> bool \<times> store \<times> outbound list \<times> nat" where
  "sweep e currentPrice [] s out n = (True, s, out, n)"
| "sweep e currentPrice ((alert, userSettings) # rest) s out n =
     (if shouldTrigger alert currentPrice then
        (let s' = update_alerts (pa_id alert) (mark_triggered (now e)) s in
         if userSettings \<noteq> Some False then
           (if fetchOk e (pa_telegram_id alert) then
              sweep e currentPrice rest s'
                (out @ [(pa_telegram_id alert,
                         PriceAlertText (alert_type alert) (target_price alert) currentPrice)])
                (Suc n)
            else (False, s', out, n))
         else sweep e currentPrice rest s' out n)
      else sweep e currentPrice rest s out n)"

text \<open>The handler of the cron endpoint: response, store after the call, messages sent.\<close>

definition check_alerts_handler :: "env \<Rightarrow> cron_request \<Rightarrow> store \<Rightarrow> cron_response \<times> store \<times> outbound list" where
  "check_alerts_handler e req s =
     (if cr_method req \<noteq> ''GET'' \<and> cr_authorization req \<noteq> Some (''Bearer '' @ CRON_SECRET e)
        then (Unauthorized401, s, [])
      else if \<not> supabase e \<or> BOT_TOKEN e = [] then (NotConfigured500, s, [])
      else
        (case getCurrentPrice e of
           None \<Rightarrow> (FailedToGetPrice500, s, [])
         | Some currentPrice \<Rightarrow>
             if currentPrice = 0 then (FailedToGetPrice500, s, [])
             else
               (let alerts = select_untriggered s in
                if alerts = [] then (NoAlerts200 currentPrice, s, [])
                else
                  (case sweep e currentPrice alerts s [] 0 of
                     (True, s', out, n) \<Rightarrow> (Checked200 currentPrice (length alerts) n, s', out)
                   | (False, s', out, n) \<Rightarrow> (InternalError500, s', out)))))"

section \<open>api/telegram/webhook.ts\<close>

subsection \<open>Utility functions\<close>

text \<open>
  \<open>sendMessage\<close> catches a failed \<open>fetch\<close>: it never throws, and the message is sent only
  when the transport takes it.
\<close>

definition sendMessage :: "env \<Rightarrow> int \<Rightarrow> msg_text \<Rightarrow> outbound list" where
  "sendMessage e chatId txt = (if fetchOk e chatId then [(chatId, txt)] else [])"

text \<open>\<open>generateCode(length)\<close>: the first \<open>length\<close> hex digits of \<open>length\<close> random bytes.\<close>

definition generateCode :: "env \<Rightarrow> nat \<Rightarrow> string" where
  "generateCode e n = take n (randomHex e n)"

text \<open>JavaScript truthiness of a nullable string and of a nullable number.\<close>

definition truthy_str :: "string option \<Rightarrow> bool" where
  "truthy_str v = (case v of None \<Rightarrow> False | Some x \<Rightarrow> x \<noteq> [])"

definition truthy_num :: "int option \<Rightarrow> bool" where
  "truthy_num v = (case v of None \<Rightarrow> False | Some x \<Rightarrow> x \<noteq> 0)"

text \<open>\<open>user.wallet_address\<close> where it is truthy, that is, the participant is linked.\<close>

definition linked_wallet :: "telegram_user \<Rightarrow> string option" where
  "linked_wallet user = (if truthy_str (wallet_address user) then wallet_address user else None)"

subsection \<open>User management\<close>

text \<open>
  The insert of \<open>getOrCreateUser\<close> is rejected when the primary key or the unique
  referral code is taken; the function then returns null.
\<close>

definition getOrCreateUser :: "env \<Rightarrow> int \<Rightarrow> string option \<Rightarrow> store \<Rightarrow> telegram_user option \<times> store" where
  "getOrCreateUser e telegramId uname s =
     (if \<not> supabase e then (None, s)
      else
        (case single (filter (\<lambda>u. telegram_id u = telegramId) (telegram_users s)) of
           Some existing \<Rightarrow>
             (if truthy_str uname \<and> username existing \<noteq> uname
                then (Some existing, update_users telegramId (\<lambda>u. u\<lparr>username := uname\<rparr>) s)
              else (Some existing, s))
         | None \<Rightarrow>
             (let referralCode = toUpperCase (generateCode e 8);
                  newUser = \<lparr>telegram_id = telegramId,
                             wallet_address = None,
                             username = (if truthy_str uname then uname else None),
                             link_code = None,
                             link_code_expires = None,
                             linked_at = None,
                             referral_code = Some referralCode,
                             referred_by = None,
                             notifications_enabled = True,
                             created_at = now e\<rparr>
              in if list_ex (\<lambda>u. telegram_id u = telegramId \<or> referral_code u = Some referralCode)
                      (telegram_users s)
                   then (None, s)
                 else (Some newUser, s\<lparr>telegram_users := telegram_users s @ [newUser]\<rparr>))))"

subsection \<open>Command handlers\<close>

text \<open>Every handler returns the store after its writes and the messages it sent.\<close>

text \<open>
  The insert into \<open>telegram_referrals\<close>; \<open>referred_telegram_id\<close> is UNIQUE, so a second
  edge for the same referred participant is rejected (the handler does not look at the
  result).
\<close>

definition insert_referral :: "env \<Rightarrow> int \<Rightarrow> int \<Rightarrow> string \<Rightarrow> store \<Rightarrow> store" where
  "insert_referral e referrer referred c s =
     (if list_ex (\<lambda>r. referred_telegram_id r = referred) (telegram_referrals s) then s
      else s\<lparr>telegram_referrals := telegram_referrals s @
               [\<lparr>rf_id = next_uuid s,
                 referrer_telegram_id = referrer,
                 referred_telegram_id = referred,
                 rf_referral_code = c,
                 status = ''completed'',
                 rf_created_at = now e,
                 completed_at = Some (now e)\<rparr>],
             next_uuid := Suc (next_uuid s)\<rparr>)"

definition handleStart :: "env \<Rightarrow> int \<Rightarrow> telegram_user \<Rightarrow> string \<Rightarrow> store \<Rightarrow> store \<times> outbound list" where
  "handleStart e chatId user args s =
     (let s' =
        (if args \<noteq> [] \<and> \<not> truthy_num (referred_by user) \<and> supabase e then
           (case single (filter (\<lambda>u. referral_code u = Some (toUpperCase args)) (telegram_users s)) of
              Some referrer \<Rightarrow>
                if telegram_id referrer \<noteq> telegram_id user then
                  insert_referral e (telegram_id referrer) (telegram_id user) (toUpperCase args)
                    (update_users (telegram_id user)
                       (\<lambda>u. u\<lparr>referred_by := Some (telegram_id referrer)\<rparr>) s)
                else s
            | None \<Rightarrow> s)
         else s)
      in (s', sendMessage e chatId
                (WelcomeText (linked_wallet user))))"

definition handleHelp :: "env \<Rightarrow> int \<Rightarrow> store \<Rightarrow> store \<times> outbound list" where
  "handleHelp e chatId s = (s, sendMessage e chatId HelpText)"

definition handleLink :: "env \<Rightarrow> int \<Rightarrow> int \<Rightarrow> telegram_user \<Rightarrow> store \<Rightarrow> store \<times> outbound list" where
  "handleLink e chatId telegramId user s =
     (if \<not> supabase e then (s, sendMessage e chatId ServiceUnavailable)
      else
        (case linked_wallet user of
           Some w \<Rightarrow> (s, sendMessage e chatId (AlreadyLinked w))
         | None \<Rightarrow>
             (let linkCode = generateCode e 32
              in (update_users telegramId
                    (\<lambda>u. u\<lparr>link_code := Some linkCode,
                           link_code_expires := Some (now e + 15 * 60 * 1000)\<rparr>) s,
                  sendMessage e chatId (LinkUrl linkCode)))))"

definition handleUnlink :: "env \<Rightarrow> int \<Rightarrow> int \<Rightarrow> telegram_user \<Rightarrow> store \<Rightarrow> store \<times> outbound list" where
  "handleUnlink e chatId telegramId user s =
     (if \<not> supabase e \<or> linked_wallet user = None
        then (s, sendMessage e chatId NoWalletLinked)
      else (update_users telegramId (\<lambda>u. u\<lparr>wallet_address := None, linked_at := None\<rparr>) s,
            sendMessage e chatId WalletUnlinked))"

definition handleNotify :: "env \<Rightarrow> int \<Rightarrow> int \<Rightarrow> telegram_user \<Rightarrow> store \<Rightarrow> store \<times> outbound list" where
  "handleNotify e chatId telegramId user s =
     (if \<not> supabase e then (s, [])
      else
        (let newState = (\<not> notifications_enabled user)
         in (update_users telegramId (\<lambda>u. u\<lparr>notifications_enabled := newState\<rparr>) s,
             sendMessage e chatId (NotificationsState newState))))"

text \<open>\<open>getTokenPrice\<close>, as \<open>getCurrentPrice\<close> of the cron job.\<close>

definition getTokenPrice :: "env \<Rightarrow> real option" where
  "getTokenPrice e = (if TOKEN_ADDRESS e = [] then None else feedPrice e)"

definition handlePortfolio :: "env \<Rightarrow> int \<Rightarrow> telegram_user \<Rightarrow> store \<Rightarrow> store \<times> outbound list" where
  "handlePortfolio e chatId user s =
     (case linked_wallet user of
        None \<Rightarrow> (s, sendMessage e chatId NoWalletUseLink)
      | Some w \<Rightarrow> (s, sendMessage e chatId (PortfolioText (rpcBalance e w))))"

definition handleStaking :: "env \<Rightarrow> int \<Rightarrow> telegram_user \<Rightarrow> store \<Rightarrow> store \<times> outbound list" where
  "handleStaking e chatId user s =
     (if STAKING_CONTRACT_ADDRESS e = [] then (s, sendMessage e chatId StakingNotConfigured)
      else
        (case linked_wallet user of
           None \<Rightarrow> (s, sendMessage e chatId NoWalletUseLink)
         | Some w \<Rightarrow>
             (case rpcStaking e w of
                None \<Rightarrow> (s, sendMessage e chatId StakingFailed)
              | Some d \<Rightarrow> (s, sendMessage e chatId (StakingText d)))))"

definition handlePrice :: "env \<Rightarrow> int \<Rightarrow> store \<Rightarrow> store \<times> outbound list" where
  "handlePrice e chatId s =
     (case getTokenPrice e of
        None \<Rightarrow> (s, sendMessage e chatId PriceUnavailable)
      | Some p \<Rightarrow> (s, sendMessage e chatId (PriceText p)))"

definition handleGas :: "env \<Rightarrow> int \<Rightarrow> store \<Rightarrow> store \<times> outbound list" where
  "handleGas e chatId s = (s, sendMessage e chatId (GasText (rpcGas e)))"

definition handleConvert :: "env \<Rightarrow> int \<Rightarrow> string \<Rightarrow> store \<Rightarrow> store \<times> outbound list" where
  "handleConvert e chatId args s =
     (let amount = parseFloat e args in
      if amount = NaN \<or> amount = NegInfinity \<or> (case amount of Finite a \<Rightarrow> a \<le> 0 | _ \<Rightarrow> False)
        then (s, sendMessage e chatId ConvertUsage)
      else
        (case getTokenPrice e of
           None \<Rightarrow> (s, sendMessage e chatId PriceUnavailable)
         | Some p \<Rightarrow> (s, sendMessage e chatId (ConvertText amount p))))"

text \<open>
  The insert of \<open>handleAlert\<close>. The row takes the defaults of the schema: a fresh id,
  \<open>triggered = FALSE\<close>, no \<open>triggered_at\<close>, \<open>created_at = NOW()\<close>. The price goes through
  the column \<open>DECIMAL(20, 10) NOT NULL\<close>: an infinity is \<open>null\<close> in the JSON payload and is
  refused, as is a number that does not fit the column; the handler does not read the
  result of the insert.
\<close>

definition insert_alert :: "env \<Rightarrow> int \<Rightarrow> string \<Rightarrow> js_number \<Rightarrow> store \<Rightarrow> store" where
  "insert_alert e telegramId alertType targetPrice s =
     (case targetPrice of
        Finite x \<Rightarrow>
          (case decimal_20_10 x of
             Some d \<Rightarrow>
               s\<lparr>telegram_price_alerts := telegram_price_alerts s @
                    [\<lparr>pa_id = next_uuid s,
                      pa_telegram_id = telegramId,
                      alert_type = alertType,
                      target_price = d,
                      triggered = False,
                      triggered_at = None,
                      pa_created_at = now e\<rparr>],
                  next_uuid := Suc (next_uuid s)\<rparr>
           | None \<Rightarrow> s)
      | _ \<Rightarrow> s)"

definition handleAlert :: "env \<Rightarrow> int \<Rightarrow> int \<Rightarrow> string \<Rightarrow> store \<Rightarrow> store \<times> outbound list" where
  "handleAlert e chatId telegramId args s =
     (if \<not> supabase e then (s, [])
      else
        (case split_on CHR '' '' args of
           p0 # p1 # rest \<Rightarrow>
             (let alertType = toLowerCase p0;
                  targetPrice = parseFloat e p1
              in if alertType \<notin> set [''above'', ''below''] \<or> targetPrice = NaN
                   then (s, sendMessage e chatId AlertInvalid)
                 else
                   (let count = length (filter (\<lambda>a. pa_telegram_id a = telegramId \<and> \<not> triggered a)
                                          (telegram_price_alerts s))
                    in if count \<ge> 5 then (s, sendMessage e chatId MaxAlerts)
                       else
                         (insert_alert e telegramId alertType targetPrice s,
                          sendMessage e chatId (AlertSet alertType targetPrice))))
         | _ \<Rightarrow> (s, sendMessage e chatId AlertUsage)))"

definition handleAlerts :: "env \<Rightarrow> int \<Rightarrow> int \<Rightarrow> store \<Rightarrow> store \<times> outbound list" where
  "handleAlerts e chatId telegramId s =
     (if \<not> supabase e then (s, [])
      else
        (let alerts = filter (\<lambda>a. pa_telegram_id a = telegramId \<and> \<not> triggered a)
                        (telegram_price_alerts s)
         in if alerts = [] then (s, sendMessage e chatId NoActiveAlerts)
            else (s, sendMessage e chatId (AlertsList alerts))))"

text \<open>
  \<open>handleDeleteAlert\<close>. When \<open>parseInt\<close> gives NaN both comparisons with the index are
  false and \<open>alerts[index]\<close> is undefined; reading its \<open>id\<close> throws, and the catch of the
  main handler acknowledges the update: nothing is written and nothing is sent.
\<close>

definition handleDeleteAlert :: "env \<Rightarrow> int \<Rightarrow> int \<Rightarrow> string \<Rightarrow> store \<Rightarrow> store \<times> outbound list" where
  "handleDeleteAlert e chatId telegramId args s =
     (if \<not> supabase e then (s, [])
      else
        (let alerts = filter (\<lambda>a. pa_telegram_id a = telegramId \<and> \<not> triggered a)
                        (telegram_price_alerts s)
         in case parseInt e args of
              None \<Rightarrow> (s, [])
            | Some k \<Rightarrow>
                (let index = k - 1 in
                 if index < 0 \<or> index \<ge> int (length alerts)
                   then (s, sendMessage e chatId AlertNotFound)
                 else
                   (s\<lparr>telegram_price_alerts :=
                        filter (\<lambda>a. pa_id a \<noteq> pa_id (alerts ! nat index)) (telegram_price_alerts s)\<rparr>,
                    sendMessage e chatId AlertDeleted))))"

definition shortenAddress :: "string \<Rightarrow> string" where
  "shortenAddress addr = take 6 addr @ ''...'' @ drop (length addr - 4) addr"

text \<open>
  The \<open>upsert\<close> of \<open>handleWatch\<close>. The call names no conflict columns, so the store
  resolves a conflict on the primary key \<open>id\<close>; the payload has no \<open>id\<close>, the row gets a
  fresh one, and no such conflict arises. The write is therefore an insert: when the pair
  \<open>(telegram_id, wallet_address)\<close> is on the list already it breaks the UNIQUE constraint
  and is refused, and the handler does not read the result.
\<close>

definition upsert_watchlist :: "env \<Rightarrow> int \<Rightarrow> string \<Rightarrow> string option \<Rightarrow> store \<Rightarrow> store" where
  "upsert_watchlist e telegramId address nick s =
     (if list_ex (\<lambda>w. wl_telegram_id w = telegramId \<and> wl_wallet_address w = address)
           (telegram_watchlist s)
        then s
      else
        s\<lparr>telegram_watchlist := telegram_watchlist s @
             [\<lparr>wl_id = next_uuid s,
               wl_telegram_id = telegramId,
               wl_wallet_address = address,
               nickname = nick,
               wl_created_at = now e\<rparr>],
           next_uuid := Suc (next_uuid s)\<rparr>)"

definition handleWatch :: "env \<Rightarrow> int \<Rightarrow> int \<Rightarrow> string \<Rightarrow> store \<Rightarrow> store \<times> outbound list" where
  "handleWatch e chatId telegramId args s =
     (if \<not> supabase e then (s, [])
      else
        (case split_on CHR '' '' args of
           [] \<Rightarrow> (s, sendMessage e chatId WatchUsage)
         | address # rest \<Rightarrow>
             (let nick = (if join_with CHR '' '' rest = [] then None
                          else Some (join_with CHR '' '' rest))
              in if \<not> startsWith address ''0x'' \<or> length address \<noteq> 42
                   then (s, sendMessage e chatId WatchUsage)
                 else
                   (let count = length (filter (\<lambda>w. wl_telegram_id w = telegramId)
                                          (telegram_watchlist s))
                    in if count \<ge> 10 then (s, sendMessage e chatId MaxWallets)
                       else
                         (upsert_watchlist e telegramId (toLowerCase address) nick s,
                          sendMessage e chatId
                            (Watching (case nick of Some n \<Rightarrow> n
                                       | None \<Rightarrow> shortenAddress address)))))))"

definition handleWatchlist :: "env \<Rightarrow> int \<Rightarrow> int \<Rightarrow> store \<Rightarrow> store \<times> outbound list" where
  "handleWatchlist e chatId telegramId s =
     (if \<not> supabase e then (s, [])
      else
        (let wallets = filter (\<lambda>w. wl_telegram_id w = telegramId) (telegram_watchlist s)
         in if wallets = [] then (s, sendMessage e chatId WatchlistEmpty)
            else (s, sendMessage e chatId (WatchlistText wallets))))"

definition handleUnwatch :: "env \<Rightarrow> int \<Rightarrow> int \<Rightarrow> string \<Rightarrow> store \<Rightarrow> store \<times> outbound list" where
  "handleUnwatch e chatId telegramId args s =
     (if \<not> supabase e \<or> \<not> startsWith args ''0x'' then (s, sendMessage e chatId UnwatchUsage)
      else
        (s\<lparr>telegram_watchlist :=
             filter (\<lambda>w. \<not> (wl_telegram_id w = telegramId \<and> wl_wallet_address w = toLowerCase args))
               (telegram_watchlist s)\<rparr>,
         sendMessage e chatId Removed))"

definition handleRefer :: "env \<Rightarrow> int \<Rightarrow> telegram_user \<Rightarrow> store \<Rightarrow> store \<times> outbound list" where
  "handleRefer e chatId user s = (s, sendMessage e chatId (ReferLink (referral_code user)))"

definition handleReferrals :: "env \<Rightarrow> int \<Rightarrow> int \<Rightarrow> store \<Rightarrow> store \<times> outbound list" where
  "handleReferrals e chatId telegramId s =
     (if \<not> supabase e then (s, [])
      else (s, sendMessage e chatId
                 (TotalReferrals (length (filter (\<lambda>r. referrer_telegram_id r = telegramId)
                                            (telegram_referrals s))))))"

definition handleContract :: "env \<Rightarrow> int \<Rightarrow> store \<Rightarrow> store \<times> outbound list" where
  "handleContract e chatId s = (s, sendMessage e chatId (ContractText (TOKEN_ADDRESS e)))"

definition handleFaq :: "env \<Rightarrow> int \<Rightarrow> store \<Rightarrow> store \<times> outbound list" where
  "handleFaq e chatId s = (s, sendMessage e chatId FaqText)"

definition handleSupport :: "env \<Rightarrow> int \<Rightarrow> int \<Rightarrow> string \<Rightarrow> store \<Rightarrow> store \<times> outbound list" where
  "handleSupport e chatId telegramId args s =
     (if length args < 5 then (s, sendMessage e chatId SupportUsage)
      else
        ((if supabase e then
            s\<lparr>telegram_support_tickets := telegram_support_tickets s @
                 [\<lparr>st_id = next_uuid s,
                   st_telegram_id = telegramId,
                   subject = ''Support'',
                   message = args,
                   st_status = ''open'',
                   st_created_at = now e\<rparr>],
               next_uuid := Suc (next_uuid s)\<rparr>
          else s),
         sendMessage e chatId SupportSubmitted))"

subsection \<open>Main handler\<close>

record webhook_message =
  from_id :: int
  from_username :: "string option"
  chat_id :: int
  wm_text :: "string option"

record webhook_request =
  wr_method :: string
  wr_message :: "webhook_message option"

datatype webhook_response = WebhookMethodNotAllowed405 | BotNotConfigured500 | Ok200

text \<open>
  The parsing of the main handler:
  \<open>const [command, ...argParts] = text.split(' '); args = argParts.join(' ');
  cmd = command.toLowerCase()\<close>. The result is \<open>(cmd, args)\<close>.
\<close>

definition parse_command :: "string \<Rightarrow> string \<times> string" where
  "parse_command txt =
     (case split_on CHR '' '' txt of
        command # argParts \<Rightarrow> (toLowerCase command, join_with CHR '' '' argParts)
      | [] \<Rightarrow> ([], []))"

text \<open>The \<open>switch (cmd)\<close> of the main handler, with its default branch.\<close>

definition dispatch :: "env \<Rightarrow> int \<Rightarrow> int \<Rightarrow> telegram_user \<Rightarrow> string \<Rightarrow> store \<Rightarrow> store \<times> outbound list" where
  "dispatch e chatId telegramId user txt s =
     (let (cmd, args) = parse_command txt in
      if cmd = ''/start'' then handleStart e chatId user args s
      else if cmd = ''/help'' then handleHelp e chatId s
      else if cmd = ''/link'' then handleLink e chatId telegramId user s
      else if cmd = ''/unlink'' then handleUnlink e chatId telegramId user s
      else if cmd = ''/notify'' then handleNotify e chatId telegramId user s
      else if cmd = ''/portfolio'' \<or> cmd = ''/balance'' then handlePortfolio e chatId user s
      else if cmd = ''/staking'' then handleStaking e chatId user s
      else if cmd = ''/price'' then handlePrice e chatId s
      else if cmd = ''/gas'' then handleGas e chatId s
      else if cmd = ''/convert'' then handleConvert e chatId args s
      else if cmd = ''/alert'' then handleAlert e chatId telegramId args s
      else if cmd = ''/alerts'' then handleAlerts e chatId telegramId s
      else if cmd = ''/deletealert'' then handleDeleteAlert e chatId telegramId args s
      else if cmd = ''/watch'' then handleWatch e chatId telegramId args s
      else if cmd = ''/watchlist'' then handleWatchlist e chatId telegramId s
      else if cmd = ''/unwatch'' then handleUnwatch e chatId telegramId args s
      else if cmd = ''/refer'' then handleRefer e chatId user s
      else if cmd = ''/referrals'' then handleReferrals e chatId telegramId s
      else if cmd = ''/contract'' then handleContract e chatId s
      else if cmd = ''/faq'' then handleFaq e chatId s
      else if cmd = ''/support'' then handleSupport e chatId telegramId args s
      else if startsWith txt ''/'' then (s, sendMessage e chatId UnknownCommand)
      else (s, []))"

text \<open>
  The handler of \<open>POST /api/telegram/webhook\<close>: response, store after the call, messages
  sent. An update without a message, or with a missing or empty text, is acknowledged
  and nothing else happens.
\<close>

definition webhook_handler :: "env \<Rightarrow> webhook_request \<Rightarrow> store \<Rightarrow> webhook_response \<times> store \<times> outbound list" where
  "webhook_handler e req s =
     (if wr_method req \<noteq> ''POST'' then (WebhookMethodNotAllowed405, s, [])
      else if BOT_TOKEN e = [] then (BotNotConfigured500, s, [])
      else
        (case wr_message req of
           None \<Rightarrow> (Ok200, s, [])
         | Some m \<Rightarrow>
             if \<not> truthy_str (wm_text m) then (Ok200, s, [])
             else
               (let chatId = chat_id m;
                    telegramId = from_id m;
                    txt = trim (case wm_text m of Some t \<Rightarrow> t | None \<Rightarrow> [])
                in case getOrCreateUser e telegramId (from_username m) s of
                     (None, s1) \<Rightarrow> (Ok200, s1, sendMessage e chatId ServiceUnavailable)
                   | (Some user, s1) \<Rightarrow>
                       (case dispatch e chatId telegramId user txt s1 of
                          (s2, out) \<Rightarrow> (Ok200, s2, out)))))"

section \<open>Notions used in the statements\<close>






text \<open>
  The parsing as the specification words it: the text is split at the first run of
  white space, the head is case-folded and the remainder is trimmed. It is compared
  with \<open>parse_command\<close> below.
\<close>

definition spec_parse :: "string \<Rightarrow> string \<times> string" where
  "spec_parse txt =
     (toLowerCase (takeWhile (\<lambda>c. \<not> is_space c) txt),
      trim (dropWhile (\<lambda>c. \<not> is_space c) txt))"

section \<open>Concrete scenarios\<close>

definition demo_user :: telegram_user where
  "demo_user = \<lparr>telegram_id = 7, wallet_address = None, username = Some ''ann'',
     link_code = Some ''c0de'', link_code_expires = Some 1000, linked_at = None,
     referral_code = Some ''AB12CD34'', referred_by = None, notifications_enabled = True,
     created_at = 0\<rparr>"

definition demo_store :: store where
  "demo_store = \<lparr>telegram_users = [demo_user], telegram_price_alerts = [],
     telegram_watchlist = [], telegram_referrals = [], telegram_support_tickets = [],
     next_uuid = 0\<rparr>"

definition demo_env :: "int \<Rightarrow> env" where
  "demo_env t = \<lparr>supabase = True, BOT_TOKEN = ''token'', TOKEN_ADDRESS = ''0xt0ken'',
     STAKING_CONTRACT_ADDRESS = [], CRON_SECRET = ''s3cret'', now = t,
     randomHex = (\<lambda>n. replicate (2 * n) CHR ''a''),
     verifyMessage = (\<lambda>m sg. if sg = ''sig'' then Some ''0xAbC'' else None),
     parseFloat = (\<lambda>x. if x = ''1'' then Finite 1
                        else if x = ''100000000000'' then Finite 100000000000 else NaN),
     parseInt = (\<lambda>x. if x = ''1'' then Some 1 else None),
     feedPrice = Some 2, rpcBalance = (\<lambda>a. ''0''), rpcStaking = (\<lambda>a. None), rpcGas = None,
     fetchOk = (\<lambda>c. True)\<rparr>"

definition demo_request :: verify_request where
  "demo_request = \<lparr>vr_method = ''POST'', vr_code = ''c0de'', vr_walletAddress = ''0xABC'',
     vr_signature = ''sig''\<rparr>"

definition demo_alert :: price_alert where
  "demo_alert = \<lparr>pa_id = 1, pa_telegram_id = 7, alert_type = ''above'', target_price = 1,
     triggered = False, triggered_at = None, pa_created_at = 0\<rparr>"



text \<open>A second participant who has switched notifications off, with an alert of its own.\<close>

definition quiet_user :: telegram_user where
  "quiet_user = demo_user\<lparr>telegram_id := 8, link_code := None, link_code_expires := None,
     referral_code := Some ''EF56AB78'', notifications_enabled := False\<rparr>"

definition quiet_alert :: price_alert where
  "quiet_alert = \<lparr>pa_id = 2, pa_telegram_id = 8, alert_type = ''below'', target_price = 5,
     triggered = False, triggered_at = None, pa_created_at = 0\<rparr>"

definition two_alert_store :: store where
  "two_alert_store = demo_store\<lparr>telegram_users := [demo_user, quiet_user],
     telegram_price_alerts := [demo_alert, quiet_alert]\<rparr>"

text \<open>An update that carries chat noise from a sender.\<close>

definition noise_message :: "int \<Rightarrow> string option \<Rightarrow> webhook_message" where
  "noise_message sender handle =
     \<lparr>from_id = sender, from_username = handle, chat_id = sender, wm_text = Some ''gm everyone''\<rparr>"

definition noise_request :: "int \<Rightarrow> string option \<Rightarrow> webhook_request" where
  "noise_request sender handle =
     \<lparr>wr_method = ''POST'', wr_message = Some (noise_message sender handle)\<rparr>"

text \<open>The row created for participant 9 at instant 50 when the random bytes are all
  \<open>aa\<close>.\<close>

definition newcomer :: telegram_user where
  "newcomer = \<lparr>telegram_id = 9, wallet_address = None, username = Some ''bob'',
     link_code = None, link_code_expires = None, linked_at = None,
     referral_code = Some ''AAAAAAAA'', referred_by = None, notifications_enabled = True,
     created_at = 50\<rparr>"

text \<open>Participant 7 with five untriggered alerts.\<close>

definition five_alert_store :: store where
  "five_alert_store =
     demo_store\<lparr>telegram_price_alerts := map (\<lambda>i. demo_alert\<lparr>pa_id := i\<rparr>) [1, 2, 3, 4, 5],
                 next_uuid := 6\<rparr>"

text \<open>Participant 7 with ten wallets on the watchlist.\<close>

definition watched :: "nat \<Rightarrow> char \<Rightarrow> watch_entry" where
  "watched i c = \<lparr>wl_id = i, wl_telegram_id = 7,
     wl_wallet_address = ''0x000000000000000000000000000000000000000'' @ [c],
     nickname = None, wl_created_at = 0\<rparr>"

definition full_watch_store :: store where
  "full_watch_store =
     demo_store\<lparr>telegram_watchlist :=
       [watched 0 CHR ''0'', watched 1 CHR ''1'', watched 2 CHR ''2'', watched 3 CHR ''3'',
        watched 4 CHR ''4'', watched 5 CHR ''5'', watched 6 CHR ''6'', watched 7 CHR ''7'',
        watched 8 CHR ''8'', watched 9 CHR ''9''],
       next_uuid := 10\<rparr>"

text \<open>Participant 7 once referred by participant 8, in a store that holds both.\<close>

definition referred_user :: telegram_user where
  "referred_user = demo_user\<lparr>referred_by := Some 8\<rparr>"

definition referred_store :: store where
  "referred_store = demo_store\<lparr>telegram_users := [referred_user, quiet_user]\<rparr>"

text \<open>The store with five alerts after the first is deleted, and after a sixth alert is
  then set at instant 30.\<close>

definition four_alert_store :: store where
  "four_alert_store =
     demo_store\<lparr>telegram_price_alerts := map (\<lambda>i. demo_alert\<lparr>pa_id := i\<rparr>) [2, 3, 4, 5],
                 next_uuid := 6\<rparr>"

definition refilled_store :: store where
  "refilled_store =
     demo_store\<lparr>telegram_price_alerts :=
                   map (\<lambda>i. demo_alert\<lparr>pa_id := i\<rparr>) [2, 3, 4, 5] @
                   [demo_alert\<lparr>pa_id := 6, pa_created_at := 30\<rparr>],
                 next_uuid := 7\<rparr>"

text \<open>The store once participant 7 is linked at instant 500.\<close>

definition linked_store :: store where
  "linked_store =
     demo_store\<lparr>telegram_users :=
       [demo_user\<lparr>wallet_address := Some ''0xabc'', linked_at := Some 500,
                  link_code := None, link_code_expires := None\<rparr>]\<rparr>"

text \<open>Participant 7 with one wallet on the watchlist, without a nickname.\<close>

definition one_watch_store :: store where
  "one_watch_store = demo_store\<lparr>telegram_watchlist := [watched 3 CHR ''3''], next_uuid := 4\<rparr>"

text \<open>The row created for participant 11, who has no handle, at instant 60.\<close>

definition nameless :: telegram_user where
  "nameless = newcomer\<lparr>telegram_id := 11, username := None, created_at := 60\<rparr>"

section \<open>Helper lemmas\<close>




lemma round_half_away_of_int: "round_half_away (of_int k) = k"
  by (simp add: round_half_away_def)

lemma decimal_20_10_of_int:
  "decimal_20_10 (of_int k) = (if \<bar>k\<bar> \<ge> 10 ^ 10 then None else Some (of_int k))"
proof -
  have e: "real_of_int k * 10 ^ 10 = real_of_int (k * 10 ^ 10)"
    by simp
  have r: "round_half_away (real_of_int k * 10 ^ 10) = k * 10 ^ 10"
    unfolding e by (rule round_half_away_of_int)
  show ?thesis
    unfolding decimal_20_10_def Let_def r by (simp add: abs_mult)
qed

lemma split_on_nonempty: "split_on c s \<noteq> []"
  by (induction s) (auto split: list.splits)

lemma join_split_on: "join_with c (split_on c s) = s"
proof (induction s)
  case Nil
  then show ?case by simp
next
  case (Cons x xs)
  obtain p ps where sp: "split_on c xs = p # ps"
    using split_on_nonempty [of c xs] by (cases "split_on c xs") auto
  show ?case
  proof (cases "x = c")
    case True
    then show ?thesis using Cons sp by simp
  next
    case False
    then show ?thesis using Cons sp by (cases ps) auto
  qed
qed

lemma split_on_head_tail:
  "split_on c s = takeWhile (\<lambda>x. x \<noteq> c) s # tl (split_on c s) \<and>
   join_with c (tl (split_on c s)) = drop 1 (dropWhile (\<lambda>x. x \<noteq> c) s)"
proof (induction s)
  case Nil
  then show ?case by simp
next
  case (Cons x xs)
  obtain p ps where sp: "split_on c xs = p # ps"
    using split_on_nonempty [of c xs] by (cases "split_on c xs") auto
  show ?case
  proof (cases "x = c")
    case True
    then show ?thesis by (simp add: join_split_on)
  next
    case False
    then show ?thesis using Cons sp by simp
  qed
qed

lemma parse_command_eq:
  "parse_command txt =
     (toLowerCase (takeWhile (\<lambda>c. c \<noteq> CHR '' '') txt),
      drop 1 (dropWhile (\<lambda>c. c \<noteq> CHR '' '') txt))"
proof -
  have "split_on CHR '' '' txt =
      takeWhile (\<lambda>x. x \<noteq> CHR '' '') txt # tl (split_on CHR '' '' txt)"
    using split_on_head_tail [of "CHR '' ''" "txt"] by simp
  moreover have "join_with CHR '' '' (tl (split_on CHR '' '' txt)) =
      drop 1 (dropWhile (\<lambda>x. x \<noteq> CHR '' '') txt)"
    using split_on_head_tail [of "CHR '' ''" "txt"] by simp
  ultimately show ?thesis
    by (cases "split_on CHR '' '' txt") (simp_all add: parse_command_def)
qed

lemma toLowerCase_char_slash: "toLowerCase_char c = CHR ''/'' \<Longrightarrow> c = CHR ''/''"
  by (auto simp add: toLowerCase_char_def split: option.splits if_splits)

lemma noise_command:
  assumes "\<not> startsWith txt ''/''"
  shows "fst (parse_command txt) \<noteq> CHR ''/'' # ys"
proof
  assume eq: "fst (parse_command txt) = CHR ''/'' # ys"
  then have "toLowerCase (takeWhile (\<lambda>c. c \<noteq> CHR '' '') txt) = CHR ''/'' # ys"
    by (simp add: parse_command_eq)
  then obtain c cs where tw: "takeWhile (\<lambda>c. c \<noteq> CHR '' '') txt = c # cs"
    and lc: "toLowerCase_char c = CHR ''/''"
    by (cases "takeWhile (\<lambda>c. c \<noteq> CHR '' '') txt") (auto simp add: toLowerCase_def)
  from tw obtain rest where "txt = c # rest"
    by (cases "txt") (auto split: if_splits)
  with lc toLowerCase_char_slash have "startsWith txt ''/''"
    by (auto simp add: startsWith_def)
  with assms show False by simp
qed

lemma dispatch_noise:
  assumes "\<not> startsWith txt ''/''"
  shows "dispatch e chatId telegramId user txt s = (s, [])"
proof -
  obtain cmd args where pc: "parse_command txt = (cmd, args)"
    by (cases "parse_command txt")
  have "\<And>ys. cmd \<noteq> CHR ''/'' # ys"
    using noise_command [OF assms] pc by simp
  then show ?thesis
    using assms by (simp add: dispatch_def pc)
qed
lemma filter_delete_one:
  assumes "distinct (map f xs)" and "x \<in> set xs" and "P x"
  shows "Suc (length (filter P (filter (\<lambda>a. f a \<noteq> f x) xs))) = length (filter P xs)"
  using assms
proof (induction xs)
  case Nil
  then show ?case by simp
next
  case (Cons y ys)
  show ?case
  proof (cases "y = x")
    case True
    have "\<And>a. a \<in> set ys \<Longrightarrow> f a \<noteq> f x"
      using Cons.prems(1) True by (force simp add: image_iff)
    then have "filter (\<lambda>a. f a \<noteq> f x) ys = ys"
      by (simp add: filter_id_conv)
    then show ?thesis using True Cons.prems(3) by simp
  next
    case False
    then have mem: "x \<in> set ys" using Cons.prems(2) by simp
    then have "f y \<noteq> f x" using Cons.prems(1) by auto
    moreover have "Suc (length (filter P (filter (\<lambda>a. f a \<noteq> f x) ys))) = length (filter P ys)"
      using Cons.IH Cons.prems(1,3) mem by simp
    ultimately show ?thesis by simp
  qed
qed

section \<open>Alert evaluation (api/cron/check-alerts.ts)\<close>

text \<open>
  C6. The trigger predicate is inclusive at the boundary: an \<open>above\<close> alert fires exactly
  when the price is greater than or equal to the target, a \<open>below\<close> alert exactly when
  the price is less than or equal to it; an alert of either direction with target 1.0
  fires at the price 1.0.
\<close>

theorem shouldTrigger_inclusive:
  "shouldTrigger (a\<lparr>alert_type := ''above''\<rparr>) p = (p \<ge> target_price a) \<and>
   shouldTrigger (a\<lparr>alert_type := ''below''\<rparr>) p = (p \<le> target_price a) \<and>
   shouldTrigger (a\<lparr>alert_type := ''above'', target_price := 1.0\<rparr>) 1.0 \<and>
   shouldTrigger (a\<lparr>alert_type := ''below'', target_price := 1.0\<rparr>) 1.0"
  by (simp add: shouldTrigger_def)




section \<open>Link verification (api/telegram/verify-link.ts)\<close>

text \<open>
  C3. A well-formed request whose code is held by one identity with a stored expiry in
  the past is refused with the expired response, whatever the signature recovers to.
  The store is left as it was: the wallet of the identity stays as it is (unset, for an
  identity that is not linked), and the code and its expiry are not cleared. Nothing is
  sent.
\<close>

theorem verify_link_expired:
  assumes "vr_method req = ''POST''" and "supabase e"
    and "vr_code req \<noteq> []" and "vr_walletAddress req \<noteq> []" and "vr_signature req \<noteq> []"
    and "filter (\<lambda>u. link_code u = Some (vr_code req)) (telegram_users s) = [user]"
    and "link_code_expires user = Some x" and "x < now e"
  shows "verify_link_handler e req s = (LinkCodeExpired400, s, [])"
  using assms by (simp add: verify_link_handler_def single_def)

theorem verify_link_expired_witness:
  "verify_link_handler (demo_env 2000) demo_request demo_store = (LinkCodeExpired400, demo_store, []) \<and>
   verifyMessage (demo_env 2000) (expectedMessage ''c0de'') ''sig'' = Some ''0xAbC'' \<and>
   toLowerCase ''0xAbC'' = toLowerCase ''0xABC'' \<and>
   map wallet_address (telegram_users demo_store) = [None] \<and>
   map link_code (telegram_users demo_store) = [Some ''c0de''] \<and>
   map link_code_expires (telegram_users demo_store) = [Some 1000]"
  using verify_link_expired [of demo_request "demo_env 2000" demo_store demo_user 1000]
  by (simp add: demo_env_def demo_request_def demo_store_def demo_user_def toLowerCase_def
      toLowerCase_char_def)

text \<open>
  C8. For a well-formed request whose code is held by one identity and is not expired,
  and whose signature recovers to an address: the request is refused as a bad signature
  exactly when the recovered and the claimed address differ after lower-casing both.
  Otherwise one update of the identity's row stores the lower-cased claimed address,
  sets the link instant and clears the code and its expiry. (The response is then the
  success response unless the confirmation message cannot be delivered.)
\<close>

theorem verify_link_binding:
  assumes "vr_method req = ''POST''" and "supabase e"
    and "vr_code req \<noteq> []" and "vr_walletAddress req \<noteq> []" and "vr_signature req \<noteq> []"
    and "filter (\<lambda>u. link_code u = Some (vr_code req)) (telegram_users s) = [user]"
    and "link_code_expires user = None \<or> (\<exists>x. link_code_expires user = Some x \<and> now e \<le> x)"
    and "verifyMessage e (expectedMessage (vr_code req)) (vr_signature req) = Some recoveredAddress"
  shows "verify_link_handler e req s =
     (if toLowerCase recoveredAddress \<noteq> toLowerCase (vr_walletAddress req)
        then (InvalidSignature400, s, [])
      else
        (if BOT_TOKEN e = [] \<or> fetchOk e (telegram_id user) then Success200 else VerificationFailed500,
         s\<lparr>telegram_users :=
             map (\<lambda>u. if telegram_id u = telegram_id user
                     then u\<lparr>wallet_address := Some (toLowerCase (vr_walletAddress req)),
                            linked_at := Some (now e),
                            link_code := None,
                            link_code_expires := None\<rparr>
                     else u) (telegram_users s)\<rparr>,
         if BOT_TOKEN e \<noteq> [] \<and> fetchOk e (telegram_id user)
           then [(telegram_id user, WalletLinked (vr_walletAddress req))] else []))"
  using assms
  by (auto simp add: verify_link_handler_def single_def update_users_def bind_wallet_def Let_def)

theorem verify_link_binding_witness:
  "toLowerCase ''0xAbC'' = toLowerCase ''0xABC'' \<and>
   verify_link_handler (demo_env 500) demo_request demo_store =
     (Success200,
      demo_store\<lparr>telegram_users :=
        [demo_user\<lparr>wallet_address := Some ''0xabc'', linked_at := Some 500,
                   link_code := None, link_code_expires := None\<rparr>]\<rparr>,
      [(7, WalletLinked ''0xABC'')])"
  using verify_link_binding [of demo_request "demo_env 500" demo_store demo_user "''0xAbC''"]
  by (simp add: demo_env_def demo_request_def demo_store_def demo_user_def toLowerCase_def
      toLowerCase_char_def expectedMessage_def)

text \<open>
  C2, as the code has it. A code held by one identity, not expired, presented with a
  signature that recovers to the claimed address: the first call updates the identity's
  row in one write (lower-cased wallet, link instant, no code, no expiry), after which
  no identity holds the code. It answers success when no bot token is set or the
  confirmation message is delivered, and the failure response 500 when the confirmation
  cannot be sent, the row being bound all the same. A second call with the same request,
  at any later invocation with the store configured, fails with the not-found response
  and changes nothing.
\<close>

theorem verify_link_single_use:
  assumes "vr_method req = ''POST''" and "supabase e"
    and "vr_code req \<noteq> []" and "vr_walletAddress req \<noteq> []" and "vr_signature req \<noteq> []"
    and "filter (\<lambda>u. link_code u = Some (vr_code req)) (telegram_users s) = [user]"
    and "link_code_expires user = None \<or> (\<exists>x. link_code_expires user = Some x \<and> now e \<le> x)"
    and "verifyMessage e (expectedMessage (vr_code req)) (vr_signature req) = Some recoveredAddress"
    and "toLowerCase recoveredAddress = toLowerCase (vr_walletAddress req)"
    and "supabase e'"
    and "verify_link_handler e req s = (r, s', out)"
  shows "r = (if BOT_TOKEN e = [] \<or> fetchOk e (telegram_id user)
              then Success200 else VerificationFailed500) \<and>
     s' = s\<lparr>telegram_users :=
             map (\<lambda>u. if telegram_id u = telegram_id user
                     then u\<lparr>wallet_address := Some (toLowerCase (vr_walletAddress req)),
                            linked_at := Some (now e),
                            link_code := None,
                            link_code_expires := None\<rparr>
                     else u) (telegram_users s)\<rparr> \<and>
     filter (\<lambda>u. link_code u = Some (vr_code req)) (telegram_users s') = [] \<and>
     verify_link_handler e' req s' = (InvalidOrExpiredLinkCode404, s', [])"
proof -
  let ?f = "bind_wallet (vr_walletAddress req) (now e)"
  have first: "r = (if BOT_TOKEN e = [] \<or> fetchOk e (telegram_id user)
              then Success200 else VerificationFailed500)"
    and s': "s' = update_users (telegram_id user) ?f s"
    using assms
    by (auto simp add: verify_link_handler_def single_def Let_def split: if_splits)
  have holders: "\<And>u. u \<in> set (telegram_users s) \<Longrightarrow> link_code u = Some (vr_code req) \<Longrightarrow> u = user"
  proof -
    fix u assume "u \<in> set (telegram_users s)" and "link_code u = Some (vr_code req)"
    then have "u \<in> set (filter (\<lambda>u. link_code u = Some (vr_code req)) (telegram_users s))"
      by simp
    then show "u = user" using assms(6) by simp
  qed
  have none: "filter (\<lambda>u. link_code u = Some (vr_code req)) (telegram_users s') = []"
    unfolding s' update_users_def
    by (auto simp add: filter_empty_conv bind_wallet_def dest: holders)
  have second: "verify_link_handler e' req s' = (InvalidOrExpiredLinkCode404, s', [])"
    using assms(1,3,4,5,10) none by (simp add: verify_link_handler_def single_def)
  have store: "s' = s\<lparr>telegram_users :=
             map (\<lambda>u. if telegram_id u = telegram_id user
                     then u\<lparr>wallet_address := Some (toLowerCase (vr_walletAddress req)),
                            linked_at := Some (now e),
                            link_code := None,
                            link_code_expires := None\<rparr>
                     else u) (telegram_users s)\<rparr>"
    by (simp add: s' update_users_def bind_wallet_def)
  show ?thesis using first none second store by blast
qed

theorem verify_link_single_use_witness:
  "verify_link_handler (demo_env 500) demo_request demo_store =
     (Success200, linked_store, [(7, WalletLinked ''0xABC'')]) \<and>
   verify_link_handler (demo_env 600) demo_request linked_store =
     (InvalidOrExpiredLinkCode404, linked_store, [])"
proof -
  have run: "verify_link_handler (demo_env 500) demo_request demo_store =
     (Success200, linked_store, [(7, WalletLinked ''0xABC'')])"
    by (simp add: verify_link_handler_def single_def update_users_def bind_wallet_def
        demo_env_def demo_request_def demo_store_def demo_user_def toLowerCase_def
        toLowerCase_char_def expectedMessage_def linked_store_def)
  have "verify_link_handler (demo_env 600) demo_request linked_store =
      (InvalidOrExpiredLinkCode404, linked_store, [])"
    using verify_link_single_use [of demo_request "demo_env 500" demo_store demo_user "''0xAbC''"
        "demo_env 600" Success200 linked_store "[(7, WalletLinked ''0xABC'')]"] run
    by (simp add: demo_env_def demo_request_def demo_store_def demo_user_def toLowerCase_def
      toLowerCase_char_def expectedMessage_def)
  then show ?thesis using run by simp
qed

text \<open>
  C2, as the claim states it, fails. When the transport does not take the confirmation
  message, the first call binds the wallet and clears the code, and answers with the
  failure response 500; the second call fails with the not-found response. Neither call
  succeeds.
\<close>

theorem verify_link_single_use_counterexample:
  "verify_link_handler ((demo_env 500)\<lparr>fetchOk := (\<lambda>c. False)\<rparr>) demo_request demo_store =
     (VerificationFailed500, linked_store, []) \<and>
   map wallet_address (telegram_users linked_store) = [Some ''0xabc''] \<and>
   map link_code (telegram_users linked_store) = [None] \<and>
   verify_link_handler ((demo_env 600)\<lparr>fetchOk := (\<lambda>c. False)\<rparr>) demo_request linked_store =
     (InvalidOrExpiredLinkCode404, linked_store, [])"
  by (simp add: verify_link_handler_def single_def update_users_def bind_wallet_def
      demo_env_def demo_request_def demo_store_def demo_user_def toLowerCase_def
      toLowerCase_char_def expectedMessage_def linked_store_def)

section \<open>Command router (api/telegram/webhook.ts)\<close>

text \<open>
  C5, as the code has it. The router cuts the text at its first space character: the
  text before it, lower-cased, is the command name, and the argument string is all that
  follows that one space, as it stands (no trimming; a tab or a line feed is no
  separator).
\<close>

theorem parse_command_first_space:
  "parse_command t =
     (toLowerCase (takeWhile (\<lambda>c. c \<noteq> CHR '' '') t),
      drop 1 (dropWhile (\<lambda>c. c \<noteq> CHR '' '') t))"
  by (rule parse_command_eq)

text \<open>
  C5, as the claim states it, fails. With two spaces after the command the argument
  string keeps its leading space, and a tab after the command does not end the command
  name; the parsing worded in the specification gives other results on both texts.
\<close>

theorem parse_command_counterexample:
  "parse_command ''/alert  above 1'' = (''/alert'', '' above 1'') \<and>
   spec_parse ''/alert  above 1'' = (''/alert'', ''above 1'') \<and>
   parse_command (''/help'' @ [CHR 0x09] @ ''me'') = (''/help'' @ [CHR 0x09] @ ''me'', []) \<and>
   spec_parse (''/help'' @ [CHR 0x09] @ ''me'') = (''/help'', ''me'')"
  by (simp add: parse_command_def spec_parse_def trim_def is_space_def toLowerCase_def
      toLowerCase_char_def)

text \<open>
  C4, as the code has it. For a message whose trimmed text does not begin with \<open>/\<close>,
  the dispatch sends nothing and writes nothing; what the handler does is the identity
  resolution that precedes the dispatch. Without a configured store it sends the
  unavailability notice. For a known participant it refreshes the display handle when
  the update carries a handle that differs from the stored one, and writes nothing
  otherwise; it sends nothing. For an unseen participant it inserts the identity row
  (fresh upper-cased referral code, notifications on) and sends nothing, unless the
  insert is refused, in which case it writes nothing and sends the unavailability
  notice.
\<close>

theorem webhook_noise:
  assumes "wr_method req = ''POST''" and "BOT_TOKEN e \<noteq> []"
    and "wr_message req = Some m" and "wm_text m = Some raw" and "raw \<noteq> []"
    and "\<not> startsWith (trim raw) ''/''"
  shows "webhook_handler e req s =
     (if \<not> supabase e then (Ok200, s, sendMessage e (chat_id m) ServiceUnavailable)
      else
        (case filter (\<lambda>u. telegram_id u = from_id m) (telegram_users s) of
           [existing] \<Rightarrow>
             (Ok200,
              if truthy_str (from_username m) \<and> username existing \<noteq> from_username m
                then s\<lparr>telegram_users :=
                        map (\<lambda>u. if telegram_id u = from_id m
                                then u\<lparr>username := from_username m\<rparr> else u)
                          (telegram_users s)\<rparr>
              else s,
              [])
         | _ \<Rightarrow>
             if list_ex (\<lambda>u. telegram_id u = from_id m \<or>
                             referral_code u = Some (toUpperCase (take 8 (randomHex e 8))))
                  (telegram_users s)
               then (Ok200, s, sendMessage e (chat_id m) ServiceUnavailable)
             else
               (Ok200,
                s\<lparr>telegram_users := telegram_users s @
                    [\<lparr>telegram_id = from_id m,
                      wallet_address = None,
                      username = (if truthy_str (from_username m) then from_username m else None),
                      link_code = None,
                      link_code_expires = None,
                      linked_at = None,
                      referral_code = Some (toUpperCase (take 8 (randomHex e 8))),
                      referred_by = None,
                      notifications_enabled = True,
                      created_at = now e\<rparr>]\<rparr>,
                [])))"
proof -
  have d: "dispatch e (chat_id m) (from_id m) u (trim raw) s1 = (s1, [])" for u s1
    using assms(6) by (rule dispatch_noise)
  have w: "webhook_handler e req s =
      (case getOrCreateUser e (from_id m) (from_username m) s of
         (None, s1) \<Rightarrow> (Ok200, s1, sendMessage e (chat_id m) ServiceUnavailable)
       | (Some user, s1) \<Rightarrow> (Ok200, s1, []))"
    using assms(1-5)
    by (simp add: webhook_handler_def truthy_str_def d split: prod.splits option.splits)
  show ?thesis
  proof (cases "filter (\<lambda>u. telegram_id u = from_id m) (telegram_users s)")
    case Nil
    then show ?thesis
      unfolding w
      by (simp add: getOrCreateUser_def single_def generateCode_def update_users_def Let_def)
  next
    case (Cons u us)
    then show ?thesis
      unfolding w
      by (cases us)
        (simp_all add: getOrCreateUser_def single_def generateCode_def update_users_def Let_def)
  qed
qed

theorem webhook_noise_witness:
  "\<not> startsWith (trim ''gm everyone'') ''/'' \<and>
   webhook_handler (demo_env 50) (noise_request 7 (Some ''ann'')) demo_store =
     (Ok200, demo_store, []) \<and>
   webhook_handler (demo_env 50) (noise_request 7 (Some ''anna'')) demo_store =
     (Ok200, demo_store\<lparr>telegram_users := [demo_user\<lparr>username := Some ''anna''\<rparr>]\<rparr>, []) \<and>
   webhook_handler (demo_env 60) (noise_request 11 None) demo_store =
     (Ok200, demo_store\<lparr>telegram_users := [demo_user, nameless]\<rparr>, [])"
proof -
  have h1: "wr_method (noise_request i h) = ''POST''"
    and h3: "wr_message (noise_request i h) = Some (noise_message i h)" for i h
    by (simp_all add: noise_request_def)
  have h2: "BOT_TOKEN (demo_env t) \<noteq> []" for t
    by (simp add: demo_env_def)
  have h4: "wm_text (noise_message i h) = Some ''gm everyone''" for i h
    by (simp add: noise_message_def)
  have h5: "''gm everyone'' \<noteq> []"
    by simp
  have n: "\<not> startsWith (trim ''gm everyone'') ''/''"
    by (simp add: startsWith_def trim_def is_space_def)
  note w = webhook_noise [OF h1 h2 h3 h4 h5 n]
  have a: "webhook_handler (demo_env 50) (noise_request 7 (Some ''ann'')) demo_store =
     (Ok200, demo_store, [])"
    unfolding w
    by (simp add: noise_message_def demo_env_def demo_store_def demo_user_def truthy_str_def)
  have b: "webhook_handler (demo_env 50) (noise_request 7 (Some ''anna'')) demo_store =
     (Ok200, demo_store\<lparr>telegram_users := [demo_user\<lparr>username := Some ''anna''\<rparr>]\<rparr>, [])"
    unfolding w
    by (simp add: noise_message_def demo_env_def demo_store_def demo_user_def truthy_str_def)
  have c: "webhook_handler (demo_env 60) (noise_request 11 None) demo_store =
     (Ok200, demo_store\<lparr>telegram_users := [demo_user, nameless]\<rparr>, [])"
    unfolding w
    by (simp add: noise_message_def demo_env_def demo_store_def demo_user_def truthy_str_def
        nameless_def newcomer_def toUpperCase_def toUpperCase_char_def eval_nat_numeral)
  show ?thesis using n a b c by simp
qed

text \<open>
  C4, as the claim states it, fails. Chat noise from a participant the store has not
  seen inserts that participant's row; and when the store is not configured the same
  noise is answered with the unavailability notice.
\<close>

theorem webhook_noise_counterexample:
  "\<not> startsWith ''gm everyone'' ''/'' \<and>
   webhook_handler (demo_env 50) (noise_request 9 (Some ''bob'')) demo_store =
     (Ok200, demo_store\<lparr>telegram_users := [demo_user, newcomer]\<rparr>, []) \<and>
   demo_store\<lparr>telegram_users := [demo_user, newcomer]\<rparr> \<noteq> demo_store \<and>
   webhook_handler ((demo_env 50)\<lparr>supabase := False\<rparr>) (noise_request 9 (Some ''bob'')) demo_store =
     (Ok200, demo_store, [(9, ServiceUnavailable)])"
proof -
  have d: "dispatch e 9 9 u ''gm everyone'' s = (s, [])" for e u s
    by (rule dispatch_noise) (simp add: startsWith_def)
  have t: "trim ''gm everyone'' = ''gm everyone''"
    by (simp add: trim_def is_space_def)
  have g: "getOrCreateUser (demo_env 50) 9 (Some ''bob'') demo_store =
      (Some newcomer, demo_store\<lparr>telegram_users := [demo_user, newcomer]\<rparr>)"
    by (simp add: getOrCreateUser_def single_def truthy_str_def generateCode_def Let_def
        toUpperCase_def toUpperCase_char_def demo_env_def demo_store_def demo_user_def
        newcomer_def eval_nat_numeral)
  have a: "webhook_handler (demo_env 50) (noise_request 9 (Some ''bob'')) demo_store =
     (Ok200, demo_store\<lparr>telegram_users := [demo_user, newcomer]\<rparr>, [])"
    by (simp add: webhook_handler_def noise_request_def noise_message_def truthy_str_def t g d)
       (simp add: demo_env_def)
  have b: "webhook_handler ((demo_env 50)\<lparr>supabase := False\<rparr>) (noise_request 9 (Some ''bob''))
      demo_store = (Ok200, demo_store, [(9, ServiceUnavailable)])"
    by (simp add: webhook_handler_def noise_request_def noise_message_def truthy_str_def t
        getOrCreateUser_def sendMessage_def demo_env_def)
  have c: "demo_store\<lparr>telegram_users := [demo_user, newcomer]\<rparr> \<noteq> demo_store"
    by (simp add: demo_store_def)
  show ?thesis using a b c by (simp add: startsWith_def)
qed


section \<open>Referrals, alert quota and watchlist quota (api/telegram/webhook.ts)\<close>

text \<open>
  C9. \<open>/start\<close> with the participant's own referral code writes nothing: no referral
  edge is created and the referrer reference stays as it is. (Codes are stored
  upper-cased and the argument is upper-cased before the lookup, so "equal to the own
  code" is equality after upper-casing; the participant's row is in the store, since the
  main handler has just read it.) And \<open>/start\<close> from a participant whose referrer
  reference is set (to a participant id, which is not 0) writes nothing, whatever the
  argument: a participant is referred at most once.
\<close>

theorem handleStart_referral_guard:
  "(referral_code user = Some (toUpperCase args) \<and>
    list_ex (\<lambda>u. telegram_id u = telegram_id user \<and> referral_code u = referral_code user)
      (telegram_users s)
      \<longrightarrow> handleStart e chatId user args s =
            (s, sendMessage e chatId (WelcomeText (linked_wallet user)))) \<and>
   (referred_by user = Some r \<and> r \<noteq> 0
      \<longrightarrow> handleStart e chatId user args s =
            (s, sendMessage e chatId (WelcomeText (linked_wallet user))))"
proof (intro conjI impI)
  assume own: "referral_code user = Some (toUpperCase args) \<and>
    list_ex (\<lambda>u. telegram_id u = telegram_id user \<and> referral_code u = referral_code user)
      (telegram_users s)"
  then obtain u where u: "u \<in> set (telegram_users s)" "telegram_id u = telegram_id user"
      "referral_code u = Some (toUpperCase args)"
    by (auto simp add: list_ex_iff)
  have self: "telegram_id referrer = telegram_id user"
    if "single (filter (\<lambda>u. referral_code u = Some (toUpperCase args)) (telegram_users s)) = Some referrer"
    for referrer
  proof -
    from that have "filter (\<lambda>u. referral_code u = Some (toUpperCase args)) (telegram_users s) = [referrer]"
      by (auto simp add: single_def split: list.splits)
    moreover have "u \<in> set (filter (\<lambda>u. referral_code u = Some (toUpperCase args)) (telegram_users s))"
      using u by simp
    ultimately show ?thesis using u(2) by simp
  qed
  show "handleStart e chatId user args s = (s, sendMessage e chatId (WelcomeText (linked_wallet user)))"
  proof (cases "single (filter (\<lambda>u. referral_code u = Some (toUpperCase args)) (telegram_users s))")
    case None
    then show ?thesis by (simp add: handleStart_def)
  next
    case (Some referrer)
    then have "telegram_id referrer = telegram_id user" by (rule self)
    with Some show ?thesis by (simp add: handleStart_def)
  qed
next
  assume "referred_by user = Some r \<and> r \<noteq> 0"
  then show "handleStart e chatId user args s = (s, sendMessage e chatId (WelcomeText (linked_wallet user)))"
    by (simp add: handleStart_def truthy_num_def)
qed

theorem handleStart_referral_guard_witness:
  "handleStart (demo_env 50) 7 demo_user ''ab12cd34'' two_alert_store =
     (two_alert_store, [(7, WelcomeText None)]) \<and>
   handleStart (demo_env 50) 7 referred_user ''ef56ab78'' referred_store =
     (referred_store, [(7, WelcomeText None)])"
proof -
  have own: "referral_code demo_user = Some (toUpperCase ''ab12cd34'') \<and>
    list_ex (\<lambda>u. telegram_id u = telegram_id demo_user \<and> referral_code u = referral_code demo_user)
      (telegram_users two_alert_store)"
    by (simp add: demo_user_def two_alert_store_def demo_store_def toUpperCase_def
        toUpperCase_char_def)
  have set: "referred_by referred_user = Some 8 \<and> (8::int) \<noteq> 0"
    by (simp add: referred_user_def)
  have msg: "sendMessage (demo_env 50) 7 (WelcomeText (linked_wallet demo_user)) = [(7, WelcomeText None)]"
    "sendMessage (demo_env 50) 7 (WelcomeText (linked_wallet referred_user)) = [(7, WelcomeText None)]"
    by (simp_all add: sendMessage_def linked_wallet_def truthy_str_def demo_env_def demo_user_def
        referred_user_def)
  from handleStart_referral_guard [of demo_user "''ab12cd34''" two_alert_store "demo_env 50" 7 8] own
  have a: "handleStart (demo_env 50) 7 demo_user ''ab12cd34'' two_alert_store =
     (two_alert_store, sendMessage (demo_env 50) 7 (WelcomeText (linked_wallet demo_user)))"
    by blast
  from handleStart_referral_guard [of referred_user "''ef56ab78''" referred_store "demo_env 50" 7 8] set
  have b: "handleStart (demo_env 50) 7 referred_user ''ef56ab78'' referred_store =
     (referred_store, sendMessage (demo_env 50) 7 (WelcomeText (linked_wallet referred_user)))"
    by blast
  show ?thesis using a b by (simp add: msg)
qed

text \<open>
  C7, as the code has it. With the store configured and a request that passes the
  argument checks (a direction \<open>above\<close> or \<open>below\<close> in any letter case, then a price that
  is not NaN): a participant with exactly five untriggered alerts is answered with the
  quota message and nothing is written. After \<open>/deletealert k\<close> with \<open>1 \<le> k \<le> 5\<close> four
  untriggered alerts remain (alert ids are a primary key), and the same request is then
  answered with the confirmation. It inserts one untriggered row for the participant,
  with the price rounded to ten decimal places, when the price is finite and fits the
  column; for any other price it inserts nothing.
\<close>

theorem alert_quota_boundary:
  assumes "supabase e" and "split_on CHR '' '' args = p0 # p1 # ps"
    and "toLowerCase p0 = ''above'' \<or> toLowerCase p0 = ''below''"
    and "parseFloat e p1 \<noteq> NaN"
    and "length (filter (\<lambda>a. pa_telegram_id a = telegramId \<and> \<not> triggered a)
           (telegram_price_alerts s)) = 5"
    and "distinct (map pa_id (telegram_price_alerts s))"
    and "supabase e1" and "parseInt e1 dargs = Some k" and "1 \<le> k" and "k \<le> 5"
    and "supabase e2" and "parseFloat e2 p1 \<noteq> NaN"
    and "handleDeleteAlert e1 chatId telegramId dargs s = (s1, out1)"
    and "handleAlert e2 chatId telegramId args s1 = (s2, out2)"
  shows "handleAlert e chatId telegramId args s = (s, sendMessage e chatId MaxAlerts) \<and>
     out1 = sendMessage e1 chatId AlertDeleted \<and>
     length (filter (\<lambda>a. pa_telegram_id a = telegramId \<and> \<not> triggered a)
       (telegram_price_alerts s1)) = 4 \<and>
     telegram_price_alerts s2 = telegram_price_alerts s1 @
       (case parseFloat e2 p1 of
          Finite x \<Rightarrow>
            (case decimal_20_10 x of
               Some d \<Rightarrow>
                 [\<lparr>pa_id = next_uuid s1, pa_telegram_id = telegramId,
                   alert_type = toLowerCase p0, target_price = d, triggered = False,
                   triggered_at = None, pa_created_at = now e2\<rparr>]
             | None \<Rightarrow> [])
        | _ \<Rightarrow> []) \<and>
     out2 = sendMessage e2 chatId (AlertSet (toLowerCase p0) (parseFloat e2 p1))"
proof -
  let ?P = "\<lambda>a. pa_telegram_id a = telegramId \<and> \<not> triggered a"
  let ?alerts = "filter ?P (telegram_price_alerts s)"
  have denied: "handleAlert e chatId telegramId args s = (s, sendMessage e chatId MaxAlerts)"
    using assms(1-5) by (auto simp add: handleAlert_def Let_def)
  have idx: "nat (k - 1) < length ?alerts"
    using assms(5,9,10) by simp
  define x where "x = ?alerts ! nat (k - 1)"
  have xin: "x \<in> set ?alerts"
    unfolding x_def using idx by (rule nth_mem)
  have del: "s1 = s\<lparr>telegram_price_alerts :=
        filter (\<lambda>a. pa_id a \<noteq> pa_id x) (telegram_price_alerts s)\<rparr>"
    and o1: "out1 = sendMessage e1 chatId AlertDeleted"
    using assms(5,7,8,9,10,13) by (auto simp add: handleDeleteAlert_def Let_def x_def)
  have "Suc (length (filter ?P (filter (\<lambda>a. pa_id a \<noteq> pa_id x) (telegram_price_alerts s))))
      = length ?alerts"
    using assms(6) xin by (intro filter_delete_one) auto
  then have four: "length (filter ?P (telegram_price_alerts s1)) = 4"
    using assms(5) by (simp add: del)
  have ins: "handleAlert e2 chatId telegramId args s1 =
      (insert_alert e2 telegramId (toLowerCase p0) (parseFloat e2 p1) s1,
       sendMessage e2 chatId (AlertSet (toLowerCase p0) (parseFloat e2 p1)))"
    using assms(2,3,11,12) four by (auto simp add: handleAlert_def Let_def)
  have rows: "telegram_price_alerts (insert_alert e2 telegramId (toLowerCase p0) (parseFloat e2 p1) s1)
      = telegram_price_alerts s1 @
       (case parseFloat e2 p1 of
          Finite x \<Rightarrow>
            (case decimal_20_10 x of
               Some d \<Rightarrow>
                 [\<lparr>pa_id = next_uuid s1, pa_telegram_id = telegramId,
                   alert_type = toLowerCase p0, target_price = d, triggered = False,
                   triggered_at = None, pa_created_at = now e2\<rparr>]
             | None \<Rightarrow> [])
        | _ \<Rightarrow> [])"
    by (simp add: insert_alert_def split: js_number.splits option.splits)
  show ?thesis
    using denied o1 four ins rows assms(14) by auto
qed

theorem alert_quota_boundary_witness:
  "length (filter (\<lambda>a. pa_telegram_id a = 7 \<and> \<not> triggered a)
     (telegram_price_alerts five_alert_store)) = 5 \<and>
   handleAlert (demo_env 10) 7 7 ''Above 1'' five_alert_store = (five_alert_store, [(7, MaxAlerts)]) \<and>
   handleDeleteAlert (demo_env 20) 7 7 ''1'' five_alert_store = (four_alert_store, [(7, AlertDeleted)]) \<and>
   length (filter (\<lambda>a. pa_telegram_id a = 7 \<and> \<not> triggered a)
     (telegram_price_alerts four_alert_store)) = 4 \<and>
   handleAlert (demo_env 30) 7 7 ''Above 1'' four_alert_store =
     (refilled_store, [(7, AlertSet ''above'' (Finite 1))]) \<and>
   telegram_price_alerts refilled_store =
     telegram_price_alerts four_alert_store @ [demo_alert\<lparr>pa_id := 6, pa_created_at := 30\<rparr>]"
proof -
  have sp: "split_on CHR '' '' ''Above 1'' = [''Above'', ''1'']"
    by simp
  have lc: "toLowerCase ''Above'' = ''above''"
    by (simp add: toLowerCase_def toLowerCase_char_def)
  have five: "length (filter (\<lambda>a. pa_telegram_id a = 7 \<and> \<not> triggered a)
     (telegram_price_alerts five_alert_store)) = 5"
    by (simp add: five_alert_store_def demo_alert_def)
  have pk: "distinct (map pa_id (telegram_price_alerts five_alert_store))"
    by (simp add: five_alert_store_def)
  have del: "handleDeleteAlert (demo_env 20) 7 7 ''1'' five_alert_store =
      (four_alert_store, [(7, AlertDeleted)])"
    by (simp add: handleDeleteAlert_def sendMessage_def Let_def five_alert_store_def
        four_alert_store_def demo_store_def demo_alert_def demo_env_def)
  have one: "decimal_20_10 1 = Some 1"
    using decimal_20_10_of_int [of 1] by simp
  have pf: "parseFloat (demo_env t) ''1'' = Finite 1" for t
    by (simp add: demo_env_def)
  have ins: "handleAlert (demo_env 30) 7 7 ''Above 1'' four_alert_store =
      (refilled_store, [(7, AlertSet ''above'' (Finite 1))])"
    by (simp add: handleAlert_def sp lc pf insert_alert_def one Let_def)
       (simp add: sendMessage_def four_alert_store_def refilled_store_def demo_store_def
          demo_alert_def demo_env_def)
  have env: "supabase (demo_env 10)" "parseFloat (demo_env 10) ''1'' \<noteq> NaN"
    "supabase (demo_env 20)" "parseInt (demo_env 20) ''1'' = Some 1"
    "supabase (demo_env 30)" "parseFloat (demo_env 30) ''1'' \<noteq> NaN"
    by (simp_all add: demo_env_def)
  have dir: "toLowerCase ''Above'' = ''above'' \<or> toLowerCase ''Above'' = ''below''"
    using lc by simp
  have k: "(1::int) \<le> 1" "(1::int) \<le> 5"
    by simp_all
  note w = alert_quota_boundary [OF env(1) sp dir env(2) five pk env(3) env(4) k env(5) env(6) del ins]
  have msg: "sendMessage (demo_env 10) 7 MaxAlerts = [(7, MaxAlerts)]"
    by (simp add: sendMessage_def demo_env_def)
  have new: "\<lparr>pa_id = next_uuid four_alert_store, pa_telegram_id = 7, alert_type = toLowerCase ''Above'',
         target_price = 1, triggered = False, triggered_at = None,
         pa_created_at = now (demo_env 30)\<rparr> = demo_alert\<lparr>pa_id := 6, pa_created_at := 30\<rparr>"
    by (simp add: lc four_alert_store_def demo_alert_def demo_env_def)
  show ?thesis
    using w five del ins by (simp add: msg new pf one)
qed

text \<open>
  C7, as the claim states it, fails. After one of five alerts is deleted, the request
  \<open>/alert above 100000000000\<close> passes every check of the command and is answered with the
  confirmation, but the price does not fit the column and no row is inserted: the store
  is as it was, with four alerts.
\<close>

theorem alert_quota_boundary_counterexample:
  "handleDeleteAlert (demo_env 20) 7 7 ''1'' five_alert_store = (four_alert_store, [(7, AlertDeleted)]) \<and>
   handleAlert (demo_env 30) 7 7 ''above 100000000000'' four_alert_store =
     (four_alert_store, [(7, AlertSet ''above'' (Finite 100000000000))]) \<and>
   length (telegram_price_alerts four_alert_store) = 4"
proof -
  have sp: "split_on CHR '' '' ''above 100000000000'' = [''above'', ''100000000000'']"
    by simp
  have lc: "toLowerCase ''above'' = ''above''"
    by (simp add: toLowerCase_def toLowerCase_char_def)
  have big: "decimal_20_10 100000000000 = None"
    using decimal_20_10_of_int [of 100000000000] by simp
  have pf: "parseFloat (demo_env 30) ''100000000000'' = Finite 100000000000"
    by (simp add: demo_env_def)
  have del: "handleDeleteAlert (demo_env 20) 7 7 ''1'' five_alert_store =
      (four_alert_store, [(7, AlertDeleted)])"
    by (simp add: handleDeleteAlert_def sendMessage_def Let_def five_alert_store_def
        four_alert_store_def demo_store_def demo_alert_def demo_env_def)
  have ins: "handleAlert (demo_env 30) 7 7 ''above 100000000000'' four_alert_store =
     (four_alert_store, [(7, AlertSet ''above'' (Finite 100000000000))])"
    by (simp add: handleAlert_def sp lc pf insert_alert_def big Let_def)
       (simp add: sendMessage_def four_alert_store_def demo_alert_def demo_env_def)
  have len: "length (telegram_price_alerts four_alert_store) = 4"
    by (simp add: four_alert_store_def)
  show ?thesis using del ins len by simp
qed

text \<open>
  C10, as the code has it. With the store configured and a well-formed address (42
  characters beginning with \<open>0x\<close>) as the first word of the argument: a participant with
  ten entries on the watchlist is answered with the quota message and nothing is
  written, whatever the address is. That includes an address already on the
  participant's list, for which the upsert would not have added a row.
\<close>

theorem watch_quota_denies:
  assumes "supabase e" and "split_on CHR '' '' args = address # ps"
    and "startsWith address ''0x''" and "length address = 42"
    and "length (filter (\<lambda>w. wl_telegram_id w = telegramId) (telegram_watchlist s)) = 10"
  shows "handleWatch e chatId telegramId args s = (s, sendMessage e chatId MaxWallets) \<and>
     (list_ex (\<lambda>w. wl_telegram_id w = telegramId \<and> wl_wallet_address w = toLowerCase address)
        (telegram_watchlist s)
      \<longrightarrow> length (telegram_watchlist (upsert_watchlist e telegramId (toLowerCase address) nick s))
            = length (telegram_watchlist s))"
  using assms by (simp add: handleWatch_def upsert_watchlist_def Let_def)

theorem watch_quota_denies_witness:
  "list_ex (\<lambda>w. wl_telegram_id w = 7 \<and>
        wl_wallet_address w = toLowerCase ''0x0000000000000000000000000000000000000003'')
     (telegram_watchlist full_watch_store) \<and>
   handleWatch (demo_env 50) 7 7 ''0x0000000000000000000000000000000000000003 whale'' full_watch_store =
     (full_watch_store, [(7, MaxWallets)])"
proof -
  have sp: "split_on CHR '' '' ''0x0000000000000000000000000000000000000003 whale'' =
      [''0x0000000000000000000000000000000000000003'', ''whale'']"
    by simp
  have sw: "startsWith ''0x0000000000000000000000000000000000000003'' ''0x''"
    by (simp add: startsWith_def)
  have len: "length ''0x0000000000000000000000000000000000000003'' = 42"
    by simp
  have ten: "length (filter (\<lambda>w. wl_telegram_id w = 7) (telegram_watchlist full_watch_store)) = 10"
    by (simp add: full_watch_store_def watched_def)
  have su: "supabase (demo_env 50)"
    by (simp add: demo_env_def)
  have on: "list_ex (\<lambda>w. wl_telegram_id w = 7 \<and>
        wl_wallet_address w = toLowerCase ''0x0000000000000000000000000000000000000003'')
     (telegram_watchlist full_watch_store)"
    by (simp add: full_watch_store_def watched_def toLowerCase_def toLowerCase_char_def)
  have msg: "sendMessage (demo_env 50) 7 MaxWallets = [(7, MaxWallets)]"
    by (simp add: sendMessage_def demo_env_def)
  from watch_quota_denies [OF su sp sw len ten, of 7 None]
  have "handleWatch (demo_env 50) 7 7 ''0x0000000000000000000000000000000000000003 whale''
      full_watch_store = (full_watch_store, sendMessage (demo_env 50) 7 MaxWallets)"
    by (rule conjunct1)
  then show ?thesis using on by (simp add: msg)
qed

text \<open>
  C10, as the claim states it, fails in its last clause: the upsert does not update the
  nickname of a row that is on the list already. On the full list the upsert of a listed
  address with the nickname \<open>whale\<close> leaves the store as it is; and below the quota the
  watch command for a listed address answers \<open>Watching: whale\<close> while the row keeps having
  no nickname.
\<close>

theorem upsert_nickname_counterexample:
  "list_ex (\<lambda>w. wl_telegram_id w = 7 \<and>
        wl_wallet_address w = ''0x0000000000000000000000000000000000000003'')
     (telegram_watchlist full_watch_store) \<and>
   upsert_watchlist (demo_env 50) 7 ''0x0000000000000000000000000000000000000003'' (Some ''whale'')
     full_watch_store = full_watch_store \<and>
   handleWatch (demo_env 50) 7 7 ''0x0000000000000000000000000000000000000003 whale'' one_watch_store =
     (one_watch_store, [(7, Watching ''whale'')]) \<and>
   map nickname (telegram_watchlist one_watch_store) = [None]"
proof -
  have sp: "split_on CHR '' '' ''0x0000000000000000000000000000000000000003 whale'' =
      [''0x0000000000000000000000000000000000000003'', ''whale'']"
    by simp
  have lc: "toLowerCase ''0x0000000000000000000000000000000000000003'' =
      ''0x0000000000000000000000000000000000000003''"
    by (simp add: toLowerCase_def toLowerCase_char_def)
  have on: "list_ex (\<lambda>w. wl_telegram_id w = 7 \<and>
        wl_wallet_address w = ''0x0000000000000000000000000000000000000003'')
     (telegram_watchlist full_watch_store)"
    by (simp add: full_watch_store_def watched_def)
  have on1: "list_ex (\<lambda>w. wl_telegram_id w = 7 \<and>
        wl_wallet_address w = ''0x0000000000000000000000000000000000000003'')
     (telegram_watchlist one_watch_store)"
    by (simp add: one_watch_store_def watched_def)
  have up: "upsert_watchlist (demo_env 50) 7 ''0x0000000000000000000000000000000000000003''
      (Some ''whale'') full_watch_store = full_watch_store"
    using on by (simp add: upsert_watchlist_def)
  have up1: "upsert_watchlist (demo_env 50) 7 ''0x0000000000000000000000000000000000000003''
      (Some ''whale'') one_watch_store = one_watch_store"
    using on1 by (simp add: upsert_watchlist_def)
  have cnt: "length (filter (\<lambda>w. wl_telegram_id w = 7) (telegram_watchlist one_watch_store)) = 1"
    by (simp add: one_watch_store_def watched_def)
  have hw: "handleWatch (demo_env 50) 7 7 ''0x0000000000000000000000000000000000000003 whale''
      one_watch_store = (one_watch_store, [(7, Watching ''whale'')])"
    by (simp add: handleWatch_def sp lc up1 cnt startsWith_def Let_def)
       (simp add: sendMessage_def demo_env_def)
  have nn: "map nickname (telegram_watchlist one_watch_store) = [None]"
    by (simp add: one_watch_store_def watched_def)
  show ?thesis using on up hw nn by simp
qed

end
